theory Spec2Isabelle
  imports Main
begin

section \<open>JavaScript values\<close>

text \<open>
  The controller is TypeScript whose request data is untyped (\<open>query: any\<close>), so the
  values it handles are modelled as JavaScript values. A JavaScript number is a
  double; the model computes with the integers a double holds exactly: \<open>Fin n\<close> is the
  number \<open>n\<close> for \<open>n\<close> of magnitude at most \<open>2^53\<close>. \<open>Huge s\<close> stands for a number of
  magnitude at least \<open>2^53\<close> (an infinity too) whose value is not computed, positive
  when \<open>s\<close> holds; \<open>Fin n\<close> with a larger \<open>n\<close> is read the same way. No other number is
  represented, and negative zero is not told apart from zero. An object is
  the list of its own enumerable properties in the order \<open>Object.keys\<close> gives them; a
  property that is absent reads as \<open>undefined\<close>. Property names that are array indices
  (which JavaScript enumerates first) and properties inherited from
  \<open>Object.prototype\<close> are not modelled.
\<close>

datatype number = Fin int | NaN | Huge bool

definition safe :: "int \<Rightarrow> bool" where
  "safe n = (- 9007199254740992 \<le> n \<and> n \<le> 9007199254740992)"

definition num_of_int :: "int \<Rightarrow> number" where
  "num_of_int n = (if safe n then Fin n else Huge (0 < n))"

fun exact :: "number \<Rightarrow> number" where
  "exact (Fin n) = num_of_int n"
| "exact n = n"

datatype jsval =
    JUndefined
  | JNull
  | JBool bool
  | JNumber number
  | JStr string
  | JArr "jsval list"
  | JObj "(string \<times> jsval) list"

type_synonym obj = "(string \<times> jsval) list"

abbreviation JNum :: "int \<Rightarrow> jsval" where
  "JNum n \<equiv> JNumber (Fin n)"

text \<open>\<open>o[k]\<close>, \<open>o[k] = v\<close> and \<open>delete o[k]\<close> on an object.\<close>

definition js_get :: "obj \<Rightarrow> string \<Rightarrow> jsval" where
  "js_get ob k = (case map_of ob k of None \<Rightarrow> JUndefined | Some v \<Rightarrow> v)"

fun js_set :: "string \<Rightarrow> jsval \<Rightarrow> obj \<Rightarrow> obj" where
  "js_set k v [] = [(k, v)]"
| "js_set k v (p # ps) = (if fst p = k then (k, v) # ps else p # js_set k v ps)"

definition js_delete :: "string \<Rightarrow> obj \<Rightarrow> obj" where
  "js_delete k ob = filter (\<lambda>p. fst p \<noteq> k) ob"

text \<open>
  \<open>v[k]\<close> on any value the controller reads a property from: an object, or the
  boolean \<open>false\<close> (which has no own property).
\<close>

fun js_prop :: "jsval \<Rightarrow> string \<Rightarrow> jsval" where
  "js_prop (JObj ob) k = js_get ob k"
| "js_prop _ k = JUndefined"

text \<open>Truthiness (\<open>ToBoolean\<close>), as \<open>if (v)\<close>, \<open>&&\<close> and \<open>||\<close> use it.\<close>

fun truthy :: "jsval \<Rightarrow> bool" where
  "truthy JUndefined = False"
| "truthy JNull = False"
| "truthy (JBool b) = b"
| "truthy (JNumber (Fin n)) = (n \<noteq> 0)"
| "truthy (JNumber NaN) = False"
| "truthy (JNumber (Huge s)) = True"
| "truthy (JStr s) = (s \<noteq> [])"
| "truthy (JArr xs) = True"
| "truthy (JObj ob) = True"

text \<open>\<open>a || b\<close>.\<close>

definition js_or :: "jsval \<Rightarrow> jsval \<Rightarrow> jsval" where
  "js_or a b = (if truthy a then a else b)"

fun is_array :: "jsval \<Rightarrow> bool" where
  "is_array (JArr xs) = True"
| "is_array _ = False"

subsection \<open>Strings and numbers\<close>

definition digit_chars :: string where
  "digit_chars = ''0123456789''"

definition is_digit :: "char \<Rightarrow> bool" where
  "is_digit c = (c \<in> set digit_chars)"

text \<open>The position of a digit among \<open>0123456789\<close> is its value.\<close>

fun index_of :: "char \<Rightarrow> string \<Rightarrow> nat" where
  "index_of c [] = 0"
| "index_of c (d # ds) = (if c = d then 0 else Suc (index_of c ds))"

definition digit_val :: "char \<Rightarrow> int" where
  "digit_val c = int (index_of c digit_chars)"

definition digits_val :: "string \<Rightarrow> int" where
  "digits_val ds = foldl (\<lambda>acc c. acc * 10 + digit_val c) 0 ds"

text \<open>White space, as far as ASCII goes: tab, line feed, vertical tab, form feed,
  carriage return and space.\<close>

definition is_space :: "char \<Rightarrow> bool" where
  "is_space c = (of_char c \<in> {9, 10, 11, 12, 13, 32 :: nat})"

text \<open>Decimal digits of a natural number, and \<open>ToString\<close> of an integer.\<close>

function show_nat :: "nat \<Rightarrow> string" where
  "show_nat n = (if n < 10 then [digit_chars ! n] else show_nat (n div 10) @ [digit_chars ! (n mod 10)])"
  by pat_completeness auto
termination
  by (relation "measure id") auto

declare show_nat.simps [simp del]

definition show_int :: "int \<Rightarrow> string" where
  "show_int i = (if i < 0 then CHR ''-'' # show_nat (nat (- i)) else show_nat (nat i))"

fun join :: "string \<Rightarrow> string list \<Rightarrow> string" where
  "join sep [] = []"
| "join sep [s] = s"
| "join sep (s # t # ts) = s @ sep @ join sep (t # ts)"

text \<open>
  \<open>ToString\<close>, as a template literal and \<open>parseInt\<close> apply it. An array prints its
  elements joined by commas, \<open>null\<close> and \<open>undefined\<close> elements as the empty string. An
  integer up to \<open>2^53\<close> prints its decimal digits; the string of a larger number is
  not computed (\<open>None\<close>), nor is the string of an array that holds one.
\<close>

fun to_string :: "jsval \<Rightarrow> string option" where
  "to_string JUndefined = Some ''undefined''"
| "to_string JNull = Some ''null''"
| "to_string (JBool b) = Some (if b then ''true'' else ''false'')"
| "to_string (JNumber (Fin n)) = (if safe n then Some (show_int n) else None)"
| "to_string (JNumber NaN) = Some ''NaN''"
| "to_string (JNumber (Huge s)) = None"
| "to_string (JStr s) = Some s"
| "to_string (JArr xs) =
     (let ss = map (\<lambda>x. if x = JUndefined \<or> x = JNull then Some [] else to_string x) xs
      in if None \<in> set ss then None else Some (join '','' (map the ss)))"
| "to_string (JObj ob) = Some ''[object Object]''"

text \<open>
  \<open>parseInt(v, 10)\<close>: the string of \<open>v\<close>, leading white space dropped, an optional
  sign, then the longest run of decimal digits; NaN when there is no digit. It is not
  computed when the string of \<open>v\<close> is not.
\<close>

definition parse_int10 :: "string \<Rightarrow> number" where
  "parse_int10 s =
     (let s1 = dropWhile is_space s;
          neg = (s1 \<noteq> [] \<and> hd s1 = CHR ''-'');
          s2 = (if s1 \<noteq> [] \<and> (hd s1 = CHR ''-'' \<or> hd s1 = CHR ''+'') then tl s1 else s1);
          z = takeWhile is_digit s2
      in if z = [] then NaN else num_of_int (if neg then - digits_val z else digits_val z))"

definition parseInt :: "jsval \<Rightarrow> number option" where
  "parseInt v = map_option parse_int10 (to_string v)"

text \<open>
  \<open>ToNumber\<close>, as \<open>*\<close> applies it to its operands. A string counts when, white space
  trimmed, it is empty (the number 0) or an optionally signed run of decimal digits.
  For every other string (a fraction, an exponent, a radix prefix, \<open>Infinity\<close>, or
  text that is no number at all) the result is \<open>None\<close>: not computed.
\<close>

definition string_to_number :: "string \<Rightarrow> number option" where
  "string_to_number s =
     (let t = rev (dropWhile is_space (rev (dropWhile is_space s)));
          neg = (t \<noteq> [] \<and> hd t = CHR ''-'');
          ds = (if t \<noteq> [] \<and> (hd t = CHR ''-'' \<or> hd t = CHR ''+'') then tl t else t)
      in if t = [] then Some (Fin 0)
         else if ds \<noteq> [] \<and> list_all is_digit ds
              then Some (num_of_int (if neg then - digits_val ds else digits_val ds))
         else None)"

fun to_number :: "jsval \<Rightarrow> number option" where
  "to_number JUndefined = Some NaN"
| "to_number JNull = Some (Fin 0)"
| "to_number (JBool b) = Some (Fin (if b then 1 else 0))"
| "to_number (JNumber n) = Some (exact n)"
| "to_number (JStr s) = string_to_number s"
| "to_number (JArr xs) = (case to_string (JArr xs) of None \<Rightarrow> None | Some s \<Rightarrow> string_to_number s)"
| "to_number (JObj ob) = Some NaN"

text \<open>
  The product of two numbers, as doubles. NaN times any number is NaN. The product of
  two integers up to \<open>2^53\<close> is their product when that is at most \<open>2^53\<close> too, and a
  number of magnitude at least \<open>2^53\<close> otherwise. A number of magnitude at least
  \<open>2^53\<close> times a non-zero integer, or times another such number, is again of that
  magnitude, with the sign of the product; times zero it is not computed (zero or, for
  an infinity, NaN).
\<close>

fun num_mul :: "number \<Rightarrow> number \<Rightarrow> number option" where
  "num_mul NaN y = Some NaN"
| "num_mul x NaN = Some NaN"
| "num_mul (Fin x) (Fin y) = Some (num_of_int (x * y))"
| "num_mul (Fin x) (Huge t) = (if x = 0 then None else Some (Huge (t = (0 < x))))"
| "num_mul (Huge s) (Fin y) = (if y = 0 then None else Some (Huge (s = (0 < y))))"
| "num_mul (Huge s) (Huge t) = Some (Huge (s = t))"

text \<open>\<open>a * b\<close>: \<open>None\<close> when an operand's number, or the product, is not computed.\<close>

definition js_mul :: "jsval \<Rightarrow> jsval \<Rightarrow> jsval option" where
  "js_mul a b =
     (case (to_number a, to_number b) of
        (Some NaN, _) \<Rightarrow> Some (JNumber NaN)
      | (_, Some NaN) \<Rightarrow> Some (JNumber NaN)
      | (Some x, Some y) \<Rightarrow> map_option JNumber (num_mul x y)
      | _ \<Rightarrow> None)"

text \<open>\<open>a > m\<close> for a number \<open>a\<close> and an integer \<open>m\<close> up to \<open>2^53\<close>: false when \<open>a\<close> is NaN.\<close>

fun num_gt :: "number \<Rightarrow> int \<Rightarrow> bool" where
  "num_gt (Fin a) m = (a > m)"
| "num_gt NaN m = False"
| "num_gt (Huge s) m = s"

text \<open>\<open>s.toUpperCase()\<close> on the ASCII letters.\<close>

definition upper_char :: "char \<Rightarrow> char" where
  "upper_char c =
     (let n = (of_char c :: nat) in if 97 \<le> n \<and> n \<le> 122 then char_of (n - 32) else c)"

definition toUpperCase :: "string \<Rightarrow> string" where
  "toUpperCase s = map upper_char s"

text \<open>\<open>s.split('.')\<close>: never empty, \<open>''.split('.')\<close> is \<open>['']\<close>.\<close>

fun split_dot :: "string \<Rightarrow> string list" where
  "split_dot [] = [[]]"
| "split_dot (c # cs) =
     (if c = CHR ''.'' then [] # split_dot cs
      else (case split_dot cs of [] \<Rightarrow> [[c]] | w # ws \<Rightarrow> (c # w) # ws))"

section \<open>Collaborators of the controller\<close>

text \<open>
  \<open>ContentPermissionsKeys\<close> is a TypeScript enum; \<open>ContentPermissionsKeys[key]\<close> is the
  name of a member. The members are the ones the controller refers to.
\<close>

datatype ContentPermissionsKeys =
    ContentViewAll
  | ContentViewOwn
  | ContentViewUnpublished
  | ContentAdd
  | ContentEdit
  | ContentEditOwn
  | ContentRemove
  | ContentRemoveOwn

fun key_name :: "ContentPermissionsKeys \<Rightarrow> string" where
  "key_name ContentViewAll = ''ContentViewAll''"
| "key_name ContentViewOwn = ''ContentViewOwn''"
| "key_name ContentViewUnpublished = ''ContentViewUnpublished''"
| "key_name ContentAdd = ''ContentAdd''"
| "key_name ContentEdit = ''ContentEdit''"
| "key_name ContentEditOwn = ''ContentEditOwn''"
| "key_name ContentRemove = ''ContentRemove''"
| "key_name ContentRemoveOwn = ''ContentRemoveOwn''"

text \<open>The acting user: \<open>user.id\<close>, \<open>user.roles\<close> and what \<open>user.isAuthorized()\<close> answers.\<close>

record UserEntity =
  user_id :: jsval
  roles :: jsval
  isAuthorized :: bool

text \<open>
  What a controller instance holds: the roles-and-permissions service, the permission
  helper, the static \<open>entityFn\<close> of its class (\<open>entityFn.name\<close> and
  \<open>entityFn.ownerFields\<close>), the repository's \<open>save\<close> (which returns the saved entity or
  throws an error object) and the value \<open>new Date()\<close> yields.
\<close>

record controller =
  getPermissionByKey :: "string \<Rightarrow> jsval"
  checkPermissionByRoles :: "jsval \<Rightarrow> jsval \<Rightarrow> bool"
  getKeyByContentName :: "string \<Rightarrow> string \<Rightarrow> string"
  entityFn_name :: string
  ownerFields :: "string list"
  save :: "obj \<Rightarrow> obj + obj"
  now :: jsval

text \<open>
  The exceptions a handler can end with. \<open>NotComputed\<close> is not one of them: it marks a
  run that depends on the string of a number the model does not compute.
\<close>

datatype exception =
    UnauthorizedException
  | ConflictException jsval
  | UnprocessableEntityException jsval
  | TypeError
  | NotComputed

text \<open>
  What a handler leaves behind besides its result: the lines written to the console,
  the query builders asked of the repository (by alias) and the entities handed to
  \<open>save\<close>.
\<close>

datatype console_entry =
    ConsoleLog "jsval list"
  | ConsoleWarn "jsval list"
  | ConsoleError "jsval list"

record world =
  console :: "console_entry list"
  builders :: "string list"
  save_calls :: "obj list"

subsection \<open>The query builder\<close>

text \<open>
  The query builder is the persistence library's. Its state is what the controller
  has asked of it: the joins, the conditions with the method that added each
  (\<open>where\<close>, \<open>andWhere\<close>, \<open>orWhere\<close>), the sort, and the arguments of \<open>take\<close> and \<open>skip\<close>.
  A condition is an expression with the parameters passed along, or a \<open>Brackets\<close>
  group holding the conditions its callback added to the builder it was given.
  \<open>where\<close> sets the condition list, \<open>andWhere\<close> and \<open>orWhere\<close> extend it. The argument of
  \<open>skip\<close> is \<open>None\<close> when it is a product the model does not compute.
\<close>

datatype conn = Where | AndWhere | OrWhere

datatype cond =
    Expr string jsval
  | Brackets "(conn \<times> cond) list"

type_synonym clause = "conn \<times> cond"

record QueryBuilder =
  qb_alias :: string
  qb_joins :: "(string \<times> string) list"
  qb_wheres :: "clause list"
  qb_orderBys :: "(string \<times> string) list"
  qb_take :: jsval
  qb_skip :: "jsval option"

definition createQueryBuilder :: "string \<Rightarrow> QueryBuilder" where
  "createQueryBuilder a =
     \<lparr>qb_alias = a, qb_joins = [], qb_wheres = [], qb_orderBys = [],
      qb_take = JUndefined, qb_skip = Some JUndefined\<rparr>"

definition wh_where :: "cond \<Rightarrow> clause list \<Rightarrow> clause list" where
  "wh_where c cs = [(Where, c)]"

definition wh_andWhere :: "cond \<Rightarrow> clause list \<Rightarrow> clause list" where
  "wh_andWhere c cs = cs @ [(AndWhere, c)]"

definition wh_orWhere :: "cond \<Rightarrow> clause list \<Rightarrow> clause list" where
  "wh_orWhere c cs = cs @ [(OrWhere, c)]"

definition leftJoin :: "string \<Rightarrow> string \<Rightarrow> QueryBuilder \<Rightarrow> QueryBuilder" where
  "leftJoin property a b = b\<lparr>qb_joins := qb_joins b @ [(property, a)]\<rparr>"

definition addOrderBy :: "string \<Rightarrow> string \<Rightarrow> QueryBuilder \<Rightarrow> QueryBuilder" where
  "addOrderBy srt ord b = b\<lparr>qb_orderBys := qb_orderBys b @ [(srt, ord)]\<rparr>"

section \<open>The permission restrictions\<close>

definition checkPermissionGranted ::
  "controller \<Rightarrow> ContentPermissionsKeys \<Rightarrow> string \<Rightarrow> UserEntity \<Rightarrow> bool" where
  "checkPermissionGranted this key entityName user =
     (let permission = getPermissionByKey this (getKeyByContentName this (key_name key) entityName)
      in checkPermissionByRoles this permission (roles user))"

text \<open>\<open>entityFn.ownerFields.forEach(field => { where[field] = user.id; })\<close>\<close>

definition set_owner_fields :: "string list \<Rightarrow> jsval \<Rightarrow> obj \<Rightarrow> obj" where
  "set_owner_fields flds uid wh = fold (\<lambda>field acc. js_set field uid acc) flds wh"

definition getWhereRestrictionsByPermissions :: "controller \<Rightarrow> UserEntity \<Rightarrow> jsval" where
  "getWhereRestrictionsByPermissions this user =
     (let entityName = entityFn_name this;
          viewAll = checkPermissionGranted this ContentViewAll entityName user;
          viewUnpublished = checkPermissionGranted this ContentViewUnpublished entityName user;
          viewOwn = checkPermissionGranted this ContentViewOwn entityName user
      in if viewAll \<or> viewOwn then
           JObj (if viewAll then
                   (if \<not> viewUnpublished then
                      (let wh = js_set ''isPublished'' (JBool True) []
                       in if viewOwn then set_owner_fields (ownerFields this) (user_id user) wh
                          else wh)
                    else [])
                 else set_owner_fields (ownerFields this) (user_id user) [])
         else JBool False)"

section \<open>Assembling the query\<close>

text \<open>
  The join steps of an owner field: \<open>parts = field.split('.')\<close>, \<open>parts.pop()\<close>, then
  \<open>parts.reduce((res, part) => { res += '.' + part; builder.leftJoin(res, res); return res; }, 'entity')\<close>.
\<close>

fun join_paths :: "string \<Rightarrow> string list \<Rightarrow> string list" where
  "join_paths res [] = []"
| "join_paths res (part # parts) =
     (let res' = res @ ''.'' @ part in res' # join_paths res' parts)"

text \<open>
  The two kinds of condition the restrictions add, each with \<open>extraWhere\<close> as its
  parameters: \<open>`entity.${field} = :${field}`\<close> and \<open>'entity.isPublished = :isPublished'\<close>.
\<close>

definition owner_eq :: "jsval \<Rightarrow> string \<Rightarrow> cond" where
  "owner_eq extraWhere field = Expr (''entity.'' @ field @ '' = :'' @ field) extraWhere"

definition published_cond :: "jsval \<Rightarrow> cond" where
  "published_cond extraWhere = Expr ''entity.isPublished = :isPublished'' extraWhere"

text \<open>
  The callback of the inner \<open>Brackets\<close>: \<open>ownerFields.forEach((field, i) => ...)\<close>, with
  the index \<open>i\<close>, the main builder (which takes the joins) and the conditions of \<open>sqb2\<close>.
\<close>

fun sqb2_factory ::
  "jsval \<Rightarrow> nat \<Rightarrow> string list \<Rightarrow> QueryBuilder \<times> clause list \<Rightarrow> QueryBuilder \<times> clause list" where
  "sqb2_factory extraWhere i [] st = st"
| "sqb2_factory extraWhere i (field # flds) (builder, sqb2) =
     (let parts = butlast (split_dot field);
          builder' = fold (\<lambda>res. leftJoin res res) (join_paths ''entity'' parts) builder;
          sqb2' = (if i \<noteq> 0 then wh_orWhere (owner_eq extraWhere field) sqb2
                   else wh_where (owner_eq extraWhere field) sqb2)
      in sqb2_factory extraWhere (Suc i) flds (builder', sqb2'))"

text \<open>The callback of the outer \<open>Brackets\<close>, on the conditions of \<open>sqb1\<close>.\<close>

definition sqb1_factory ::
  "jsval \<Rightarrow> string list \<Rightarrow> bool \<Rightarrow> QueryBuilder \<Rightarrow> QueryBuilder \<times> clause list" where
  "sqb1_factory extraWhere flds hasOwnerFields builder =
     (if hasOwnerFields then
        (let (builder', sqb2) = sqb2_factory extraWhere 0 flds (builder, []);
             sqb1 = wh_where (Brackets sqb2) []
         in (builder',
             if truthy (js_prop extraWhere ''isPublished'')
             then wh_orWhere (published_cond extraWhere) sqb1
             else sqb1))
      else
        (builder,
         if truthy (js_prop extraWhere ''isPublished'')
         then wh_where (published_cond extraWhere) []
         else []))"

text \<open>\<open>ownerFields.reduce((res, field) => res && typeof extraWhere[field] !== 'undefined', true)\<close>\<close>

definition hasOwnerFields :: "jsval \<Rightarrow> string list \<Rightarrow> bool" where
  "hasOwnerFields extraWhere flds =
     foldl (\<lambda>res field. res \<and> js_prop extraWhere field \<noteq> JUndefined) True flds"

text \<open>\<open>if (extraWhere) { builder.where(new Brackets(sqb1 => ...)) }\<close>\<close>

definition apply_restrictions :: "jsval \<Rightarrow> string list \<Rightarrow> QueryBuilder \<Rightarrow> QueryBuilder" where
  "apply_restrictions extraWhere flds builder =
     (if truthy extraWhere then
        (let (builder', sqb1) =
               sqb1_factory extraWhere flds (hasOwnerFields extraWhere flds) builder
         in builder'\<lparr>qb_wheres := wh_where (Brackets sqb1) (qb_wheres builder')\<rparr>)
      else builder)"

text \<open>
  \<open>if (query.orderBy && query.order) builder.addOrderBy(`entity.${query.orderBy}`, query.order.toUpperCase())\<close>:
  a truthy \<open>order\<close> that is not a string has no \<open>toUpperCase\<close>, and the call throws.
\<close>

definition apply_order :: "obj \<Rightarrow> QueryBuilder \<Rightarrow> exception + QueryBuilder" where
  "apply_order query builder =
     (if truthy (js_get query ''orderBy'') \<and> truthy (js_get query ''order'') then
        (case js_get query ''order'' of
           JStr s \<Rightarrow>
             (case to_string (js_get query ''orderBy'') of
                Some name \<Rightarrow> Inr (addOrderBy (''entity.'' @ name) (toUpperCase s) builder)
              | None \<Rightarrow> Inl NotComputed)
         | _ \<Rightarrow> Inl TypeError)
      else Inr builder)"

text \<open>The limit and the page (the \<open>if (query.limit) ... else ...\<close> block), written into the query.\<close>

definition limit_warning :: "int \<Rightarrow> string" where
  "limit_warning maxLimit =
     ''Limit was overriden due to more than max limit ('' @ show_int maxLimit @ '')''"

definition apply_limit :: "obj \<Rightarrow> world \<Rightarrow> (obj \<times> world) option" where
  "apply_limit query w =
     (if truthy (js_get query ''limit'') then
        (case parseInt (js_get query ''limit'') of
           None \<Rightarrow> None
         | Some queryLimit \<Rightarrow>
             (let maxLimit = (100 :: int);
                  (query1, w1) =
                    (if num_gt queryLimit maxLimit then
                       (js_set ''limit'' (JNum maxLimit) query,
                        w\<lparr>console := console w @ [ConsoleWarn [JStr (limit_warning maxLimit)]]\<rparr>)
                     else (js_set ''limit'' (JNumber queryLimit) query, w))
              in Some (js_set ''page'' (js_or (js_get query1 ''page'') (JNum 0)) query1, w1)))
      else Some (js_set ''page'' (JNum 0) (js_set ''limit'' (JNum 25) query), w))"

text \<open>\<open>builder.take(query.limit); builder.skip(query.offset || query.limit * query.page)\<close>\<close>

definition apply_take_skip :: "obj \<Rightarrow> QueryBuilder \<Rightarrow> QueryBuilder" where
  "apply_take_skip query builder =
     builder\<lparr>qb_take := js_get query ''limit'',
             qb_skip := (if truthy (js_get query ''offset'') then Some (js_get query ''offset'')
                         else js_mul (js_get query ''limit'') (js_get query ''page''))\<rparr>"

text \<open>The five \<open>delete\<close> statements.\<close>

definition delete_reserved :: "obj \<Rightarrow> obj" where
  "delete_reserved query =
     js_delete ''offset'' (js_delete ''order'' (js_delete ''orderBy''
       (js_delete ''page'' (js_delete ''limit'' query))))"

text \<open>\<open>Object.keys(query).forEach(key => ...)\<close>: one \<open>andWhere\<close> for each key that is left.\<close>

definition filter_cond :: "obj \<Rightarrow> string \<Rightarrow> cond" where
  "filter_cond query key =
     (if is_array (js_get query key)
      then Expr (''entity.'' @ key @ '' IN(:...'' @ key @ '')'') (JObj query)
      else Expr (''entity.'' @ key @ '' = :'' @ key) (JObj query))"

definition apply_filters :: "obj \<Rightarrow> QueryBuilder \<Rightarrow> QueryBuilder" where
  "apply_filters query builder =
     fold (\<lambda>key b. b\<lparr>qb_wheres := wh_andWhere (filter_cond query key) (qb_wheres b)\<rparr>)
       (map fst query) builder"

text \<open>
  \<open>getQueryBuilder\<close> returns the builder or throws; it also changes the caller's query
  object and may write to the console, so the query and the world are returned too.
\<close>

definition getQueryBuilder ::
  "controller \<Rightarrow> UserEntity \<Rightarrow> obj \<Rightarrow> bool \<Rightarrow> world \<Rightarrow> (exception + QueryBuilder) \<times> obj \<times> world" where
  "getQueryBuilder this user query skipPermission w =
     (let extraWhere = getWhereRestrictionsByPermissions this user
      in if extraWhere = JBool False \<and> \<not> skipPermission then (Inl UnauthorizedException, query, w)
         else
           (let w1 = w\<lparr>builders := builders w @ [''entity'']\<rparr>;
                builder = apply_restrictions extraWhere (ownerFields this) (createQueryBuilder ''entity'')
            in case apply_order query builder of
                 Inl e \<Rightarrow> (Inl e, query, w1)
               | Inr builder1 \<Rightarrow>
                   (case apply_limit query w1 of
                      None \<Rightarrow> (Inl NotComputed, query, w1)
                    | Some (query1, w2) \<Rightarrow>
                        (let builder2 = apply_take_skip query1 builder1;
                             query2 = delete_reserved query1
                         in (Inr (apply_filters query2 builder2), query2, w2)))))"

section \<open>The create and update handlers\<close>

text \<open>The author and the moderator of a new entity: the user, or \<open>null\<close> for a user who is not authorized.\<close>

definition stamp_author :: "UserEntity \<Rightarrow> obj \<Rightarrow> obj" where
  "stamp_author user entity =
     (if isAuthorized user
      then js_set ''moderatorId'' (user_id user) (js_set ''authorId'' (user_id user) entity)
      else js_set ''moderatorId'' JNull (js_set ''authorId'' JNull entity))"

definition createContentEntity ::
  "controller \<Rightarrow> obj \<Rightarrow> UserEntity \<Rightarrow> world \<Rightarrow> (exception + jsval) \<times> world" where
  "createContentEntity this entity user w =
     (let entity1 = stamp_author user entity;
          validateResult = True
      in if validateResult then
           (let w1 = w\<lparr>save_calls := save_calls w @ [entity1]\<rparr>
            in case save this entity1 of
                 Inr saved \<Rightarrow> (Inr (JObj saved), w1)
               | Inl e \<Rightarrow>
                   if js_get e ''code'' = JStr ''ER_DUP_ENTRY'' then
                     (Inl (ConflictException (JStr ''Duplicate entity. Please, check unique fields'')), w1)
                   else
                     (Inl (UnprocessableEntityException
                             (JStr ''Something went wrong. Please try later or contact us'')),
                      w1\<lparr>console := console w1 @ [ConsoleLog [now this, JObj e]]\<rparr>))
         else (Inl (UnprocessableEntityException (JBool validateResult)), w))"

text \<open>\<open>Object.assign(target, source)\<close>: every own property of the source, in order.\<close>

definition object_assign :: "obj \<Rightarrow> obj \<Rightarrow> obj" where
  "object_assign target source = fold (\<lambda>key acc. js_set key (js_get source key) acc) (map fst source) target"

text \<open>The entity \<open>updateContentEntity\<close> hands to \<open>save\<close>: \<open>currentEntity\<close> after lines 104 to 107.\<close>

definition merged_entity :: "UserEntity \<Rightarrow> obj \<Rightarrow> obj \<Rightarrow> obj" where
  "merged_entity user currentEntity newEntity =
     (let newEntity1 = js_set ''id'' (js_get currentEntity ''id'') newEntity;
          newEntity2 = js_set ''authorId'' (js_get currentEntity ''authorId'') newEntity1;
          newEntity3 = js_set ''moderatorId'' (user_id user) newEntity2
      in object_assign currentEntity newEntity3)"

text \<open>A handler that ends without \<open>return\<close> yields \<open>undefined\<close>.\<close>

definition updateContentEntity ::
  "controller \<Rightarrow> UserEntity \<Rightarrow> obj \<Rightarrow> obj \<Rightarrow> world \<Rightarrow> (exception + jsval) \<times> world" where
  "updateContentEntity this user currentEntity newEntity w =
     (let currentEntity1 = merged_entity user currentEntity newEntity;
          validateResult = True
      in if validateResult then
           (let w1 = w\<lparr>save_calls := save_calls w @ [currentEntity1]\<rparr>
            in case save this currentEntity1 of
                 Inr test \<Rightarrow> (Inr (JObj test), w1)
               | Inl e \<Rightarrow> (Inr JUndefined, w1\<lparr>console := console w1 @ [ConsoleError [JObj e]]\<rparr>))
         else (Inl (UnprocessableEntityException (JBool validateResult)), w))"

section \<open>Notions the properties are stated with\<close>

text \<open>A permission of the resource: the key namespaced with the entity's name.\<close>

definition granted :: "controller \<Rightarrow> UserEntity \<Rightarrow> ContentPermissionsKeys \<Rightarrow> bool" where
  "granted this user key = checkPermissionGranted this key (entityFn_name this) user"

text \<open>
  The access predicate of a builder is the condition added with \<open>where\<close>; the caller's
  filters are the conditions added with \<open>andWhere\<close>.
\<close>

definition access_predicate :: "QueryBuilder \<Rightarrow> cond option" where
  "access_predicate b = (case qb_wheres b of (Where, c) # cs \<Rightarrow> Some c | _ \<Rightarrow> None)"

definition filters :: "QueryBuilder \<Rightarrow> cond list" where
  "filters b = map snd (filter (\<lambda>cl. fst cl = AndWhere) (qb_wheres b))"

text \<open>The terms of a condition: its expressions, in order, whatever the grouping.\<close>

fun leaves :: "cond \<Rightarrow> (string \<times> jsval) list" where
  "leaves (Expr e ps) = [(e, ps)]"
| "leaves (Brackets cs) = concat (map (\<lambda>(t, c). leaves c) cs)"

text \<open>
  The group of owner-field terms: one equality per owner field, the first added with
  \<open>where\<close> and every further one with \<open>orWhere\<close>.
\<close>

fun owner_group :: "jsval \<Rightarrow> string list \<Rightarrow> clause list" where
  "owner_group extraWhere [] = []"
| "owner_group extraWhere (f # fs) =
     (Where, owner_eq extraWhere f) # map (\<lambda>g. (OrWhere, owner_eq extraWhere g)) fs"

definition reserved_keys :: "string list" where
  "reserved_keys = [''limit'', ''page'', ''orderBy'', ''order'', ''offset'']"

text \<open>A query can be sorted when its \<open>order\<close>, if it is used, is a string.\<close>

definition order_ok :: "obj \<Rightarrow> bool" where
  "order_ok query =
     (if truthy (js_get query ''orderBy'') \<and> truthy (js_get query ''order'')
      then (case js_get query ''order'' of JStr s \<Rightarrow> True | _ \<Rightarrow> False)
      else True)"

text \<open>
  A query is exact when the strings the run needs are computed: the sort name, when
  the query is sorted, and the limit, when there is one.
\<close>

definition exact_query :: "obj \<Rightarrow> bool" where
  "exact_query query =
     ((if truthy (js_get query ''orderBy'') \<and> truthy (js_get query ''order'')
       then to_string (js_get query ''orderBy'') \<noteq> None else True)
      \<and> (if truthy (js_get query ''limit'') then parseInt (js_get query ''limit'') \<noteq> None else True))"

subsection \<open>Named parameters, and which rows a query admits\<close>

text \<open>
  The query builder keeps one map of named parameters for the whole query: every call
  that passes parameters sets each of them, in the order of the calls, and a later
  value replaces an earlier one of the same name. (A \<open>Brackets\<close> group hands the
  parameters set inside it to the builder it is given to.)
\<close>

definition set_parameters :: "jsval \<Rightarrow> obj \<Rightarrow> obj" where
  "set_parameters ps acc = (case ps of JObj ob \<Rightarrow> object_assign acc ob | _ \<Rightarrow> acc)"

definition named_parameters :: "QueryBuilder \<Rightarrow> obj" where
  "named_parameters b =
     fold (\<lambda>l acc. set_parameters (snd l) acc) (concat (map (\<lambda>cl. leaves (snd cl)) (qb_wheres b))) []"

text \<open>
  Comparing a column with a parameter: \<open>null\<close> equals nothing; two integers, two
  booleans compare by value; a string equals itself. The store's other comparisons
  (between kinds, between different strings under its collation) are not computed.
\<close>

fun sql_eq :: "jsval \<Rightarrow> jsval \<Rightarrow> bool option" where
  "sql_eq JNull v = Some False"
| "sql_eq v JNull = Some False"
| "sql_eq (JNumber (Fin a)) (JNumber (Fin b)) = (if safe a \<and> safe b then Some (a = b) else None)"
| "sql_eq (JBool a) (JBool b) = Some (a = b)"
| "sql_eq (JStr a) (JStr b) = (if a = b then Some True else None)"
| "sql_eq v v' = None"

text \<open>
  A row gives a value to each column path. The expression \<open>entity.k = :k\<close> asks the
  row's \<open>k\<close> to equal the named parameter \<open>k\<close>; \<open>entity.k IN(:...k)\<close> asks it to equal
  one of the parameter's elements. Within a group \<open>AND\<close> binds tighter than \<open>OR\<close>, as
  in SQL, and a group without conditions admits every row. The result is \<open>None\<close> when
  a comparison is not computed or an expression is of neither form.
\<close>

definition expr_value :: "obj \<Rightarrow> obj \<Rightarrow> string \<Rightarrow> bool option" where
  "expr_value row params e =
     (case find (\<lambda>k. e = ''entity.'' @ k @ '' = :'' @ k) (map fst params) of
        Some k \<Rightarrow> sql_eq (js_get row k) (js_get params k)
      | None \<Rightarrow>
          (case find (\<lambda>k. e = ''entity.'' @ k @ '' IN(:...'' @ k @ '')'') (map fst params) of
             Some k \<Rightarrow>
               (case js_get params k of
                  JArr xs \<Rightarrow>
                    (let rs = map (sql_eq (js_get row k)) xs
                     in if Some True \<in> set rs then Some True
                        else if None \<in> set rs then None else Some False)
                | _ \<Rightarrow> None)
           | None \<Rightarrow> None))"

fun and_value :: "bool option \<Rightarrow> bool option \<Rightarrow> bool option" where
  "and_value (Some a) (Some b) = Some (a \<and> b)"
| "and_value _ _ = None"

fun or_value :: "bool option \<Rightarrow> bool option \<Rightarrow> bool option" where
  "or_value (Some a) (Some b) = Some (a \<or> b)"
| "or_value _ _ = None"

fun cond_value :: "obj \<Rightarrow> obj \<Rightarrow> cond \<Rightarrow> bool option"
  and clauses_value :: "obj \<Rightarrow> obj \<Rightarrow> bool option \<Rightarrow> clause list \<Rightarrow> bool option" where
  "cond_value row params (Expr e ps) = expr_value row params e"
| "cond_value row params (Brackets []) = Some True"
| "cond_value row params (Brackets ((t, c) # cs)) =
     clauses_value row params (cond_value row params c) cs"
| "clauses_value row params acc [] = acc"
| "clauses_value row params acc ((t, c) # cs) =
     (if t = OrWhere then or_value acc (clauses_value row params (cond_value row params c) cs)
      else clauses_value row params (and_value acc (cond_value row params c)) cs)"

definition admits :: "QueryBuilder \<Rightarrow> obj \<Rightarrow> bool option" where
  "admits b row = cond_value row (named_parameters b) (Brackets (qb_wheres b))"

subsection \<open>Example instances\<close>

text \<open>
  A controller of an \<open>Article\<close> resource whose permission store grants the three view
  permissions as the flags say, and whose repository saves every entity.
\<close>

definition example_controller :: "bool \<Rightarrow> bool \<Rightarrow> bool \<Rightarrow> string list \<Rightarrow> controller" where
  "example_controller va vu vo flds =
     \<lparr>getPermissionByKey = JStr,
      checkPermissionByRoles = (\<lambda>p r.
         (p = JStr ''Article.ContentViewAll'' \<and> va) \<or>
         (p = JStr ''Article.ContentViewUnpublished'' \<and> vu) \<or>
         (p = JStr ''Article.ContentViewOwn'' \<and> vo)),
      getKeyByContentName = (\<lambda>k n. n @ ''.'' @ k),
      entityFn_name = ''Article'',
      ownerFields = flds,
      save = Inr,
      now = JStr ''2019-01-01T00:00:00.000Z''\<rparr>"

definition user9 :: UserEntity where
  "user9 = \<lparr>user_id = JNum 9, roles = JArr [], isAuthorized = True\<rparr>"


definition world0 :: world where
  "world0 = \<lparr>console = [], builders = [], save_calls = []\<rparr>"

text \<open>
  The builders \<open>getQueryBuilder\<close> returns for \<open>user9\<close> and an empty query: with
  \<open>ContentViewOwn\<close> alone over the owner fields \<open>authorId\<close> and \<open>moderatorId\<close>; with
  \<open>ContentViewAll\<close> and \<open>ContentViewOwn\<close> over the same owner fields; and with
  \<open>ContentViewAll\<close> alone. Then the builder for a user whose \<open>id\<close> is \<open>undefined\<close>
  and who is granted \<open>ContentViewOwn\<close> alone.
\<close>

definition builder_own :: QueryBuilder where
  "builder_own =
     \<lparr>qb_alias = ''entity'', qb_joins = [],
      qb_wheres =
        [(Where, Brackets
           [(Where, Brackets
              [(Where, Expr ''entity.authorId = :authorId''
                  (JObj [(''authorId'', JNum 9), (''moderatorId'', JNum 9)])),
               (OrWhere, Expr ''entity.moderatorId = :moderatorId''
                  (JObj [(''authorId'', JNum 9), (''moderatorId'', JNum 9)]))])])],
      qb_orderBys = [], qb_take = JNum 25, qb_skip = Some (JNum 0)\<rparr>"




text \<open>
  The builder for \<open>user9\<close>, granted \<open>ContentViewOwn\<close> alone over \<open>authorId\<close> and
  \<open>moderatorId\<close>, when the caller's query is \<open>?authorId=3\<close>.
\<close>

definition builder_own_filtered :: QueryBuilder where
  "builder_own_filtered =
     \<lparr>qb_alias = ''entity'', qb_joins = [],
      qb_wheres =
        [(Where, Brackets
           [(Where, Brackets
              [(Where, Expr ''entity.authorId = :authorId''
                  (JObj [(''authorId'', JNum 9), (''moderatorId'', JNum 9)])),
               (OrWhere, Expr ''entity.moderatorId = :moderatorId''
                  (JObj [(''authorId'', JNum 9), (''moderatorId'', JNum 9)]))])]),
         (AndWhere, Expr ''entity.authorId = :authorId'' (JObj [(''authorId'', JStr ''3'')]))],
      qb_orderBys = [], qb_take = JNum 25, qb_skip = Some (JNum 0)\<rparr>"



section \<open>Basic facts\<close>

lemma js_get_js_set: "js_get (js_set k v ob) k' = (if k' = k then v else js_get ob k')"
  by (induction ob) (auto simp: js_get_def)

lemma js_get_Nil: "js_get [] k = JUndefined"
  by (simp add: js_get_def)

lemma js_get_set_owner_fields:
  "js_get (set_owner_fields flds uid wh) k = (if k \<in> set flds then uid else js_get wh k)"
  unfolding set_owner_fields_def
  by (induction flds arbitrary: wh) (auto simp: js_get_js_set)

lemma foldl_conj: "foldl (\<lambda>res x. res \<and> P x) a xs = (a \<and> list_all P xs)"
  by (induction xs arbitrary: a) auto

lemma hasOwnerFields_JObj:
  "hasOwnerFields (JObj ob) flds = list_all (\<lambda>f. js_get ob f \<noteq> JUndefined) flds"
  by (simp add: hasOwnerFields_def foldl_conj)

lemma restrictions_by_grants:
  "getWhereRestrictionsByPermissions this user =
     (if granted this user ContentViewAll then
        (if granted this user ContentViewUnpublished then JObj []
         else if granted this user ContentViewOwn
              then JObj (set_owner_fields (ownerFields this) (user_id user) [(''isPublished'', JBool True)])
              else JObj [(''isPublished'', JBool True)])
      else if granted this user ContentViewOwn
           then JObj (set_owner_fields (ownerFields this) (user_id user) [])
           else JBool False)"
  by (simp add: getWhereRestrictionsByPermissions_def granted_def Let_def)

lemma sqb2_later:
  "0 < i \<Longrightarrow> snd (sqb2_factory ew i flds (b, acc)) = acc @ map (\<lambda>g. (OrWhere, owner_eq ew g)) flds"
  by (induction flds arbitrary: i b acc) (simp_all add: Let_def wh_orWhere_def)

lemma sqb2_first: "snd (sqb2_factory ew 0 flds (b, [])) = owner_group ew flds"
  by (cases flds) (simp_all add: Let_def wh_where_def sqb2_later)

lemma sqb1_clauses:
  "snd (sqb1_factory ew flds hof b) =
     (if hof then
        (Where, Brackets (owner_group ew flds)) #
          (if truthy (js_prop ew ''isPublished'') then [(OrWhere, published_cond ew)] else [])
      else (if truthy (js_prop ew ''isPublished'') then [(Where, published_cond ew)] else []))"
  using sqb2_first [of ew flds b]
  by (auto simp: sqb1_factory_def Let_def wh_where_def wh_orWhere_def split: prod.splits)

lemma wheres_apply_restrictions:
  "qb_wheres (apply_restrictions ew flds b) =
     (if truthy ew then [(Where, Brackets (snd (sqb1_factory ew flds (hasOwnerFields ew flds) b)))]
      else qb_wheres b)"
  by (simp add: apply_restrictions_def wh_where_def split: prod.splits)

lemma apply_order_fields:
  "apply_order query b = Inr b1 \<Longrightarrow>
     qb_wheres b1 = qb_wheres b \<and> qb_joins b1 = qb_joins b \<and> qb_alias b1 = qb_alias b
     \<and> qb_take b1 = qb_take b \<and> qb_skip b1 = qb_skip b"
  by (auto simp: apply_order_def addOrderBy_def split: if_splits jsval.splits option.splits)



lemma apply_order_Inl:
  "apply_order query b = Inl e \<Longrightarrow>
     (e = TypeError \<and> \<not> order_ok query) \<or> (e = NotComputed \<and> \<not> exact_query query)"
  by (auto simp: apply_order_def order_ok_def exact_query_def split: if_splits jsval.splits option.splits)

lemma fold_andWhere:
  "fold (\<lambda>key b. b\<lparr>qb_wheres := wh_andWhere (f key) (qb_wheres b)\<rparr>) ks b =
     b\<lparr>qb_wheres := qb_wheres b @ map (\<lambda>k. (AndWhere, f k)) ks\<rparr>"
  by (induction ks arbitrary: b) (simp_all add: wh_andWhere_def)

lemma apply_filters_eq:
  "apply_filters q b = b\<lparr>qb_wheres := qb_wheres b @ map (\<lambda>k. (AndWhere, filter_cond q k)) (map fst q)\<rparr>"
  by (simp add: apply_filters_def fold_andWhere)

lemma getQueryBuilder_Inr:
  assumes "getQueryBuilder this user query sk w = (Inr b, q', w')"
  shows "\<exists>b1 q1. apply_order query
            (apply_restrictions (getWhereRestrictionsByPermissions this user) (ownerFields this)
               (createQueryBuilder ''entity'')) = Inr b1
          \<and> apply_limit query (w\<lparr>builders := builders w @ [''entity'']\<rparr>) = Some (q1, w')
          \<and> b = apply_filters q' (apply_take_skip q1 b1)
          \<and> q' = delete_reserved q1
          \<and> (getWhereRestrictionsByPermissions this user \<noteq> JBool False \<or> sk)"
  using assms
  by (auto simp: getQueryBuilder_def Let_def split: if_splits sum.splits prod.splits option.splits)

lemma keys_js_set: "fst ` set (js_set k v ob) = insert k (fst ` set ob)"
  by (induction ob) auto

lemma js_get_fold_set:
  "js_get (fold (\<lambda>key acc. js_set key (g key) acc) ks t) k = (if k \<in> set ks then g k else js_get t k)"
  by (induction ks arbitrary: t) (auto simp: js_get_js_set)

lemma js_get_object_assign:
  "js_get (object_assign t s) k = (if k \<in> fst ` set s then js_get s k else js_get t k)"
  by (simp add: object_assign_def js_get_fold_set)

lemma js_get_js_delete: "js_get (js_delete k' ob) k = (if k = k' then JUndefined else js_get ob k)"
  by (induction ob) (auto simp: js_get_def js_delete_def)

lemma keys_delete_reserved:
  "map fst (delete_reserved q) = filter (\<lambda>k. k \<notin> set reserved_keys) (map fst q)"
  by (induction q) (auto simp: delete_reserved_def js_delete_def reserved_keys_def)

lemma js_get_delete_reserved:
  "js_get (delete_reserved q) k = (if k \<in> set reserved_keys then JUndefined else js_get q k)"
  by (simp add: delete_reserved_def js_get_js_delete reserved_keys_def)

lemma filter_keys_js_set:
  "P k \<Longrightarrow> filter (\<lambda>x. \<not> P x) (map fst (js_set k v ob)) = filter (\<lambda>x. \<not> P x) (map fst ob)"
  by (induction ob) auto

lemma limit_warning_100:
  "limit_warning 100 = ''Limit was overriden due to more than max limit (100)''"
  by (simp add: limit_warning_def show_int_def show_nat.simps digit_chars_def)

lemma apply_limit_Some:
  assumes "apply_limit query w = Some (q1, w1)"
  shows "(truthy (js_get query ''limit'') \<longrightarrow>
           (\<exists>ql. parseInt (js_get query ''limit'') = Some ql
              \<and> q1 = js_set ''page'' (js_or (js_get query ''page'') (JNum 0))
                       (js_set ''limit'' (if num_gt ql 100 then JNum 100 else JNumber ql) query)
              \<and> w1 = (if num_gt ql 100
                       then w\<lparr>console := console w @
                              [ConsoleWarn [JStr ''Limit was overriden due to more than max limit (100)'']]\<rparr>
                       else w)))
       \<and> (\<not> truthy (js_get query ''limit'') \<longrightarrow>
           q1 = js_set ''page'' (JNum 0) (js_set ''limit'' (JNum 25) query) \<and> w1 = w)"
  using assms
  by (auto simp: apply_limit_def Let_def limit_warning_100 js_get_js_set
      split: if_splits option.splits prod.splits)

lemma apply_limit_keys:
  assumes "apply_limit query w = Some (q1, w1)"
  shows "filter (\<lambda>k. k \<notin> set reserved_keys) (map fst q1)
     = filter (\<lambda>k. k \<notin> set reserved_keys) (map fst query)"
proof -
  have r: "''limit'' \<in> set reserved_keys" "''page'' \<in> set reserved_keys"
    by (simp_all add: reserved_keys_def)
  have step: "k \<in> set reserved_keys \<Longrightarrow>
      filter (\<lambda>x. x \<notin> set reserved_keys) (map fst (js_set k v ob))
        = filter (\<lambda>x. x \<notin> set reserved_keys) (map fst ob)" for k v ob
    using filter_keys_js_set [of "\<lambda>x. x \<in> set reserved_keys" k v ob] by simp
  show ?thesis
    using apply_limit_Some [OF assms] by (cases "truthy (js_get query ''limit'')") (auto simp: step r)
qed

lemma apply_limit_get:
  assumes "apply_limit query w = Some (q1, w1)" and "k \<notin> set reserved_keys"
  shows "js_get q1 k = js_get query k"
  using apply_limit_Some [OF assms(1)] assms(2)
  by (cases "truthy (js_get query ''limit'')") (auto simp: js_get_js_set reserved_keys_def)

lemma apply_limit_offset:
  assumes "apply_limit query w = Some (q1, w1)"
  shows "js_get q1 ''offset'' = js_get query ''offset''"
  using apply_limit_Some [OF assms]
  by (cases "truthy (js_get query ''limit'')") (auto simp: js_get_js_set)



lemma wheres_access_then_filters:
  assumes "getQueryBuilder this user query sk w = (Inr b, q', w')"
  shows "qb_wheres b =
           (if truthy (getWhereRestrictionsByPermissions this user)
            then [(Where, Brackets (snd (sqb1_factory (getWhereRestrictionsByPermissions this user)
                     (ownerFields this)
                     (hasOwnerFields (getWhereRestrictionsByPermissions this user) (ownerFields this))
                     (createQueryBuilder ''entity''))))]
            else [])
           @ map (\<lambda>k. (AndWhere, filter_cond q' k)) (map fst q')"
proof -
  from getQueryBuilder_Inr [OF assms] obtain b1 q1 where
    o: "apply_order query
            (apply_restrictions (getWhereRestrictionsByPermissions this user) (ownerFields this)
               (createQueryBuilder ''entity'')) = Inr b1"
    and b: "b = apply_filters q' (apply_take_skip q1 b1)"
    by blast
  have "qb_wheres b = qb_wheres b1 @ map (\<lambda>k. (AndWhere, filter_cond q' k)) (map fst q')"
    by (simp add: b apply_filters_eq apply_take_skip_def)
  moreover have "qb_wheres b1 = qb_wheres (apply_restrictions (getWhereRestrictionsByPermissions this user)
      (ownerFields this) (createQueryBuilder ''entity''))"
    using apply_order_fields [OF o] by simp
  ultimately show ?thesis
    by (simp add: wheres_apply_restrictions createQueryBuilder_def)
qed

lemma access_predicate_result:
  assumes "getQueryBuilder this user query sk w = (Inr b, q', w')"
  shows "access_predicate b =
           (if truthy (getWhereRestrictionsByPermissions this user)
            then Some (Brackets (snd (sqb1_factory (getWhereRestrictionsByPermissions this user)
                     (ownerFields this)
                     (hasOwnerFields (getWhereRestrictionsByPermissions this user) (ownerFields this))
                     (createQueryBuilder ''entity''))))
            else None)"
  unfolding access_predicate_def wheres_access_then_filters [OF assms]
  by (cases "map fst q'") simp_all

lemma owner_fields_all_set:
  "uid \<noteq> JUndefined \<Longrightarrow>
     list_all (\<lambda>f. js_get (set_owner_fields flds uid wh) f \<noteq> JUndefined) flds"
  by (simp add: list_all_iff js_get_set_owner_fields)

lemma js_get_single: "js_get [(k, v)] k' = (if k' = k then v else JUndefined)"
  by (simp add: js_get_def)




lemma owner_scope_access:
  assumes res: "getQueryBuilder this user query sk w = (Inr b, q', w')"
    and uid: "user_id user \<noteq> JUndefined"
    and pub: "''isPublished'' \<notin> set (ownerFields this)"
    and ew: "ew = getWhereRestrictionsByPermissions this user"
    and own: "granted this user ContentViewOwn"
    and nall: "\<not> (granted this user ContentViewAll \<and> granted this user ContentViewUnpublished)"
  shows "access_predicate b =
            Some (Brackets ((Where, Brackets (owner_group ew (ownerFields this))) #
              (if granted this user ContentViewAll \<and> \<not> granted this user ContentViewUnpublished
               then [(OrWhere, Expr ''entity.isPublished = :isPublished'' ew)] else [])))"
    and "\<forall>f \<in> set (ownerFields this). js_prop ew f = user_id user"
  using own nall uid pub unfolding access_predicate_result [OF res] unfolding ew
  by (auto simp: restrictions_by_grants sqb1_clauses hasOwnerFields_JObj owner_fields_all_set
        js_get_set_owner_fields js_get_single js_get_Nil published_cond_def list_all_iff)




lemma granted_example:
  "granted (example_controller va vu vo flds) u ContentViewAll = va"
  "granted (example_controller va vu vo flds) u ContentViewUnpublished = vu"
  "granted (example_controller va vu vo flds) u ContentViewOwn = vo"
  by (simp_all add: granted_def checkPermissionGranted_def example_controller_def)

lemma take_skip_result:
  assumes "getQueryBuilder this user query sk w = (Inr b, q', w')"
  shows "\<exists>q1. apply_limit query (w\<lparr>builders := builders w @ [''entity'']\<rparr>) = Some (q1, w')
          \<and> qb_take b = js_get q1 ''limit''
          \<and> qb_skip b = (if truthy (js_get query ''offset'') then Some (js_get query ''offset'')
                          else js_mul (js_get q1 ''limit'') (js_get q1 ''page''))"
proof -
  from getQueryBuilder_Inr [OF assms] obtain b1 q1 where
    al: "apply_limit query (w\<lparr>builders := builders w @ [''entity'']\<rparr>) = Some (q1, w')"
    and b: "b = apply_filters q' (apply_take_skip q1 b1)"
    by blast
  show ?thesis
    using al by (auto simp: b apply_filters_eq apply_take_skip_def apply_limit_offset [OF al])
qed

lemma js_mul_exact:
  "safe l \<Longrightarrow> to_number v = Some (Fin p) \<Longrightarrow> safe (l * p) \<Longrightarrow> js_mul (JNum l) v = Some (JNum (l * p))"
  by (simp add: js_mul_def num_of_int_def)

lemma fold_set_parameters_same:
  "\<forall>l \<in> set ls. snd l = JObj ob \<Longrightarrow>
     js_get (fold (\<lambda>l acc. set_parameters (snd l) acc) ls acc) k
       = (if ls \<noteq> [] \<and> k \<in> fst ` set ob then js_get ob k else js_get acc k)"
  by (induction ls arbitrary: acc) (auto simp: set_parameters_def js_get_object_assign)

lemma leaves_owner_group: "l \<in> set (leaves (Brackets (owner_group ew flds))) \<Longrightarrow> snd l = ew"
  by (cases flds) (auto simp: owner_eq_def)

lemma leaves_sqb1:
  "l \<in> set (leaves (Brackets (snd (sqb1_factory ew flds hof b0)))) \<Longrightarrow> snd l = ew"
  using leaves_owner_group [of l ew flds]
  by (auto simp: sqb1_clauses published_cond_def split: if_splits)

lemma leaves_filters:
  "concat (map (\<lambda>cl. leaves (snd cl)) (map (\<lambda>k. (AndWhere, filter_cond q k)) ks))
     = map (\<lambda>k. (if is_array (js_get q k) then ''entity.'' @ k @ '' IN(:...'' @ k @ '')''
                   else ''entity.'' @ k @ '' = :'' @ k, JObj q)) ks"
  by (induction ks) (simp_all add: filter_cond_def)

lemma named_parameters_result:
  assumes res: "getQueryBuilder this user query sk w = (Inr b, q', w')"
    and ew: "getWhereRestrictionsByPermissions this user = JObj eo"
  shows "js_get (named_parameters b) k =
           (if k \<in> set (map fst q') then js_get q' k
            else if map_option leaves (access_predicate b) = Some [] then JUndefined
            else js_get eo k)"
proof -
  let ?sqb1 = "snd (sqb1_factory (JObj eo) (ownerFields this)
                     (hasOwnerFields (JObj eo) (ownerFields this)) (createQueryBuilder ''entity''))"
  let ?fl = "map (\<lambda>k. (if is_array (js_get q' k) then ''entity.'' @ k @ '' IN(:...'' @ k @ '')''
                   else ''entity.'' @ k @ '' = :'' @ k, JObj q')) (map fst q')"
  have wh: "qb_wheres b = (Where, Brackets ?sqb1) # map (\<lambda>k. (AndWhere, filter_cond q' k)) (map fst q')"
    using wheres_access_then_filters [OF res] by (simp add: ew)
  have ap: "access_predicate b = Some (Brackets ?sqb1)"
    by (simp add: access_predicate_def wh)
  have np: "named_parameters b =
      fold (\<lambda>l acc. set_parameters (snd l) acc) ?fl
        (fold (\<lambda>l acc. set_parameters (snd l) acc) (leaves (Brackets ?sqb1)) [])"
  proof -
    have "named_parameters b =
        fold (\<lambda>l acc. set_parameters (snd l) acc)
          (leaves (Brackets ?sqb1) @
           concat (map (\<lambda>cl. leaves (snd cl)) (map (\<lambda>k. (AndWhere, filter_cond q' k)) (map fst q')))) []"
      unfolding named_parameters_def wh by (simp only: list.map concat.simps snd_conv)
    then show ?thesis
      by (simp only: leaves_filters fold_append o_apply)
  qed
  have f2: "js_get (fold (\<lambda>l acc. set_parameters (snd l) acc) ?fl acc) k
      = (if k \<in> fst ` set q' then js_get q' k else js_get acc k)" for acc
    using fold_set_parameters_same [of ?fl q' acc k] by auto
  have f1: "js_get (fold (\<lambda>l acc. set_parameters (snd l) acc) (leaves (Brackets ?sqb1)) []) k
      = (if leaves (Brackets ?sqb1) = [] then JUndefined else js_get eo k)"
  proof -
    have all: "\<forall>l \<in> set (leaves (Brackets ?sqb1)). snd l = JObj eo"
      using leaves_sqb1 by blast
    have absent: "js_get eo k = JUndefined" if "k \<notin> fst ` set eo"
      using that by (simp add: js_get_def map_of_eq_None_iff [THEN iffD2])
    show ?thesis
      unfolding fold_set_parameters_same [OF all] using absent by (simp add: js_get_Nil)
  qed
  show ?thesis
    unfolding np f2 f1 ap by simp
qed

lemma owner_params:
  assumes res: "getQueryBuilder this user query sk w = (Inr b, q', w')"
    and uid: "user_id user \<noteq> JUndefined"
    and pub: "''isPublished'' \<notin> set (ownerFields this)"
    and own: "granted this user ContentViewOwn"
    and nall: "\<not> (granted this user ContentViewAll \<and> granted this user ContentViewUnpublished)"
    and f: "f \<in> set (ownerFields this)"
  shows "js_get (named_parameters b) f
           = (if f \<in> set (map fst q') then js_get q' f else user_id user)"
proof -
  have "\<exists>eo. getWhereRestrictionsByPermissions this user = JObj eo \<and> js_get eo f = user_id user"
    using own nall f
    by (cases "granted this user ContentViewAll")
      (simp_all add: restrictions_by_grants js_get_set_owner_fields)
  then obtain eo where ew: "getWhereRestrictionsByPermissions this user = JObj eo"
    and g: "js_get eo f = user_id user"
    by blast
  from owner_scope_access(1) [OF res uid pub refl own nall] f
  have "map_option leaves (access_predicate b) \<noteq> Some []"
    by (cases "ownerFields this") (auto simp: owner_eq_def)
  then show ?thesis
    using named_parameters_result [OF res ew, of f] g by auto
qed




text \<open>
  A filter of the caller named like an owner field replaces the value of the named
  parameter the owner-field term is compared with.
\<close>

lemma caller_filter_replaces_owner_parameter:
  "getQueryBuilder (example_controller False False True [''authorId'', ''moderatorId'']) user9
     [(''authorId'', JStr ''3'')] False world0
     = (Inr builder_own_filtered, [(''authorId'', JStr ''3'')], world0\<lparr>builders := [''entity'']\<rparr>)
   \<and> js_get (named_parameters builder_own_filtered) ''authorId'' = JStr ''3''
   \<and> js_get (named_parameters builder_own_filtered) ''moderatorId'' = JNum 9"
  by code_simp

section \<open>The permission gate\<close>

text \<open>
  C1. The compiled restriction is the denial (\<open>false\<close>) exactly when neither
  \<open>ContentViewAll\<close> nor \<open>ContentViewOwn\<close> is granted to the user on the resource. In that
  case \<open>getQueryBuilder\<close> without \<open>skipPermission\<close> throws \<open>UnauthorizedException\<close> with
  nothing done: no builder was asked of the repository, nothing was written to the
  console and the caller's query is as it was.
\<close>

theorem denied_iff_no_view_permission:
  "(getWhereRestrictionsByPermissions this user = JBool False) =
     (\<not> granted this user ContentViewAll \<and> \<not> granted this user ContentViewOwn)
   \<and> (getWhereRestrictionsByPermissions this user = JBool False \<longrightarrow>
        getQueryBuilder this user query False w = (Inl UnauthorizedException, query, w))"
  by (simp add: restrictions_by_grants getQueryBuilder_def)

theorem denied_iff_no_view_permission_witness:
  "getWhereRestrictionsByPermissions (example_controller False True False [''authorId'']) user9 = JBool False
   \<and> getQueryBuilder (example_controller False True False [''authorId'']) user9
        [(''limit'', JStr ''10''), (''title'', JStr ''x'')] False world0
      = (Inl UnauthorizedException, [(''limit'', JStr ''10''), (''title'', JStr ''x'')], world0)"
  using denied_iff_no_view_permission
    [of "example_controller False True False [''authorId'']" user9
        "[(''limit'', JStr ''10''), (''title'', JStr ''x'')]" world0]
  by (simp add: granted_example)

section \<open>The access predicate\<close>




text \<open>
  C2, as the claim states it, fails: for a user granted only \<open>ContentViewOwn\<close> and the
  owner fields \<open>authorId\<close> and \<open>moderatorId\<close>, the second owner-field term is added with
  \<open>orWhere\<close>, and the assembled filter admits a row whose \<open>authorId\<close> is the user's id
  and whose \<open>moderatorId\<close> is not.
\<close>

theorem own_only_conjunction_counterexample:
  "getQueryBuilder (example_controller False False True [''authorId'', ''moderatorId'']) user9 [] False world0
     = (Inr builder_own, [], world0\<lparr>builders := [''entity'']\<rparr>)
   \<and> access_predicate builder_own
     = Some (Brackets
          [(Where, Brackets
             [(Where, Expr ''entity.authorId = :authorId''
                 (JObj [(''authorId'', JNum 9), (''moderatorId'', JNum 9)])),
              (OrWhere, Expr ''entity.moderatorId = :moderatorId''
                 (JObj [(''authorId'', JNum 9), (''moderatorId'', JNum 9)]))])])
   \<and> named_parameters builder_own = [(''authorId'', JNum 9), (''moderatorId'', JNum 9)]
   \<and> admits builder_own [(''authorId'', JNum 9), (''moderatorId'', JNum 3)] = Some True
   \<and> js_get [(''authorId'', JNum 9), (''moderatorId'', JNum 3)] ''moderatorId'' \<noteq> user_id user9"
  by code_simp

text \<open>
  C2, amended. For a user whose \<open>id\<close> is not \<open>undefined\<close>, granted \<open>ContentViewOwn\<close> but
  not \<open>ContentViewAll\<close>, and a resource with a non-empty list of owner fields, none of
  them \<open>isPublished\<close>: the compiled restriction sets every owner field to the user's
  id, and the access predicate is the group of one equality term per owner field, the
  first added with \<open>where\<close> and every further one with \<open>orWhere\<close>, a disjunction. The
  named parameter each term compares its field with is the user's id, unless the
  caller's query has a filter of that name, whose value then replaces it.
\<close>

theorem own_only_filter_is_disjunction:
  assumes res: "getQueryBuilder this user query sk w = (Inr b, q', w')"
    and uid: "user_id user \<noteq> JUndefined"
    and pub: "''isPublished'' \<notin> set (ownerFields this)"
    and ew: "ew = getWhereRestrictionsByPermissions this user"
    and own: "granted this user ContentViewOwn"
    and nall: "\<not> granted this user ContentViewAll"
    and ne: "ownerFields this \<noteq> []"
  shows "(\<forall>f \<in> set (ownerFields this). js_prop ew f = user_id user)
       \<and> access_predicate b = Some (Brackets [(Where, Brackets (owner_group ew (ownerFields this)))])
       \<and> owner_group ew (ownerFields this) =
            (Where, Expr (''entity.'' @ hd (ownerFields this) @ '' = :'' @ hd (ownerFields this)) ew) #
            map (\<lambda>g. (OrWhere, Expr (''entity.'' @ g @ '' = :'' @ g) ew)) (tl (ownerFields this))
       \<and> (\<forall>f \<in> set (ownerFields this).
             js_get (named_parameters b) f
               = (if f \<in> set (map fst q') then js_get q' f else user_id user))"
proof -
  from nall have n: "\<not> (granted this user ContentViewAll \<and> granted this user ContentViewUnpublished)"
    by simp
  note acc = owner_scope_access [OF res uid pub ew own n]
  have ap: "access_predicate b = Some (Brackets [(Where, Brackets (owner_group ew (ownerFields this)))])"
    using acc(1) nall by simp
  have shape: "owner_group ew (ownerFields this) =
            (Where, Expr (''entity.'' @ hd (ownerFields this) @ '' = :'' @ hd (ownerFields this)) ew) #
            map (\<lambda>g. (OrWhere, Expr (''entity.'' @ g @ '' = :'' @ g) ew)) (tl (ownerFields this))"
    using ne by (cases "ownerFields this") (simp_all add: owner_eq_def)
  show ?thesis
    using acc(2) ap shape owner_params [OF res uid pub own n] by simp
qed

theorem own_only_filter_is_disjunction_witness:
  "user_id user9 \<noteq> JUndefined
   \<and> granted (example_controller False False True [''authorId'', ''moderatorId'']) user9 ContentViewOwn
   \<and> \<not> granted (example_controller False False True [''authorId'', ''moderatorId'']) user9 ContentViewAll
   \<and> getQueryBuilder (example_controller False False True [''authorId'', ''moderatorId'']) user9
        [] False world0
     = (Inr builder_own, [], world0\<lparr>builders := [''entity'']\<rparr>)
   \<and> access_predicate builder_own
     = Some (Brackets
          [(Where, Brackets
             [(Where, Expr ''entity.authorId = :authorId''
                 (JObj [(''authorId'', JNum 9), (''moderatorId'', JNum 9)])),
              (OrWhere, Expr ''entity.moderatorId = :moderatorId''
                 (JObj [(''authorId'', JNum 9), (''moderatorId'', JNum 9)]))])])
   \<and> js_get (named_parameters builder_own) ''moderatorId'' = JNum 9"
proof -
  let ?c = "example_controller False False True [''authorId'', ''moderatorId'']"
  have u: "user_id user9 \<noteq> JUndefined"
    by (simp add: user9_def)
  have o: "ownerFields ?c = [''authorId'', ''moderatorId'']"
    by (simp add: example_controller_def)
  have p: "''isPublished'' \<notin> set (ownerFields ?c)" and ne: "ownerFields ?c \<noteq> []"
    by (simp_all add: o)
  have gr: "granted ?c user9 ContentViewOwn" "\<not> granted ?c user9 ContentViewAll"
    by (simp_all add: granted_example)
  have e: "getWhereRestrictionsByPermissions ?c user9
             = JObj [(''authorId'', JNum 9), (''moderatorId'', JNum 9)]"
    by code_simp
  have g: "getQueryBuilder ?c user9 [] False world0
     = (Inr builder_own, [], world0\<lparr>builders := [''entity'']\<rparr>)"
    by code_simp
  note t = own_only_filter_is_disjunction [OF g u p refl gr ne]
  from t have a: "access_predicate builder_own
      = Some (Brackets [(Where, Brackets (owner_group (getWhereRestrictionsByPermissions ?c user9)
            (ownerFields ?c)))])"
    by blast
  from t have n: "\<forall>f \<in> set (ownerFields ?c). js_get (named_parameters builder_own) f = user_id user9"
    by simp
  have m: "js_get (named_parameters builder_own) ''moderatorId'' = JNum 9"
    using n by (simp add: o user9_def)
  show ?thesis
    using u gr g a m by (simp add: e o owner_eq_def)
qed




section \<open>Pagination, filters and the bypass\<close>

text \<open>
  C5. Whenever \<open>getQueryBuilder\<close> returns a builder: a supplied (truthy) limit that
  parses to more than 100 is clamped to 100 and the warning is written to the
  console; one that parses to at most 100 is used as it is, with no warning; without
  a limit the limit is 25 and the page 0; with a limit and no page the page is 0; the
  offset is the caller's offset when there is one and the product of limit and page,
  as JavaScript multiplies them, otherwise. When the page is an integer and the
  product stays within \<open>2^53\<close> in magnitude, that product is the integer product
  (limit 10 and page 2 give 20).
\<close>

theorem pagination:
  assumes res: "getQueryBuilder this user query sk w = (Inr b, q', w')"
    and page: "page = (if truthy (js_get query ''limit'') \<and> truthy (js_get query ''page'')
                       then js_get query ''page'' else JNum 0)"
  shows "(truthy (js_get query ''limit'')
            \<and> (parseInt (js_get query ''limit'') = Some (Fin n) \<and> 100 < n
                \<or> parseInt (js_get query ''limit'') = Some (Huge True)) \<longrightarrow>
            qb_take b = JNum 100
            \<and> console w' = console w @
                [ConsoleWarn [JStr ''Limit was overriden due to more than max limit (100)'']])
       \<and> (truthy (js_get query ''limit'') \<and> parseInt (js_get query ''limit'') = Some (Fin n) \<and> n \<le> 100 \<longrightarrow>
            qb_take b = JNum n \<and> console w' = console w)
       \<and> (\<not> truthy (js_get query ''limit'') \<longrightarrow>
            qb_take b = JNum 25 \<and> page = JNum 0 \<and> console w' = console w)
       \<and> (truthy (js_get query ''limit'') \<and> \<not> truthy (js_get query ''page'') \<longrightarrow> page = JNum 0)
       \<and> (truthy (js_get query ''offset'') \<longrightarrow> qb_skip b = Some (js_get query ''offset''))
       \<and> (\<not> truthy (js_get query ''offset'') \<longrightarrow> qb_skip b = js_mul (qb_take b) page)
       \<and> (\<not> truthy (js_get query ''offset'') \<and> qb_take b = JNum l \<and> to_number page = Some (Fin p)
            \<and> safe l \<and> safe (l * p) \<longrightarrow>
            qb_skip b = Some (JNum (l * p)))"
proof -
  let ?w1 = "w\<lparr>builders := builders w @ [''entity'']\<rparr>"
  from take_skip_result [OF res] obtain q1 where
    al: "apply_limit query ?w1 = Some (q1, w')"
    and tk: "qb_take b = js_get q1 ''limit''"
    and sk: "qb_skip b = (if truthy (js_get query ''offset'') then Some (js_get query ''offset'')
                          else js_mul (js_get q1 ''limit'') (js_get q1 ''page''))"
    by blast
  note st = apply_limit_Some [OF al]
  have pg: "js_get q1 ''page'' = page"
    using st by (cases "truthy (js_get query ''limit'')") (auto simp: page js_get_js_set js_or_def)
  have lim: "js_get q1 ''limit'' =
      (if truthy (js_get query ''limit'')
       then (if num_gt (the (parseInt (js_get query ''limit''))) 100 then JNum 100
             else JNumber (the (parseInt (js_get query ''limit''))))
       else JNum 25)"
    using st by (cases "truthy (js_get query ''limit'')") (auto simp: js_get_js_set)
  have cons: "console w' =
      (if truthy (js_get query ''limit'') \<and> num_gt (the (parseInt (js_get query ''limit''))) 100
       then console w @ [ConsoleWarn [JStr ''Limit was overriden due to more than max limit (100)'']]
       else console w)"
    using st by (cases "truthy (js_get query ''limit'')") auto
  have skp: "qb_skip b = (if truthy (js_get query ''offset'') then Some (js_get query ''offset'')
                          else js_mul (qb_take b) page)"
    by (simp add: sk tk pg)
  have ex: "qb_skip b = Some (JNum (l * p))"
    if "\<not> truthy (js_get query ''offset'')" "qb_take b = JNum l" "to_number page = Some (Fin p)"
      "safe l" "safe (l * p)"
    using that by (simp add: skp js_mul_exact)
  have p0: "page = JNum 0" if "\<not> (truthy (js_get query ''limit'') \<and> truthy (js_get query ''page''))"
    using that by (auto simp: page)
  show ?thesis
    using ex p0 unfolding skp cons tk lim by auto
qed

theorem pagination_witness:
  "getQueryBuilder (example_controller True True False [''authorId'']) user9
       [(''limit'', JStr ''10''), (''page'', JStr ''2'')] False world0
     = (Inr \<lparr>qb_alias = ''entity'', qb_joins = [], qb_wheres = [(Where, Brackets [])],
             qb_orderBys = [], qb_take = JNum 10, qb_skip = Some (JNum 20)\<rparr>,
        [], world0\<lparr>builders := [''entity'']\<rparr>)
   \<and> getQueryBuilder (example_controller True True False [''authorId'']) user9
       [(''limit'', JStr ''150''), (''offset'', JStr ''7'')] False world0
     = (Inr \<lparr>qb_alias = ''entity'', qb_joins = [], qb_wheres = [(Where, Brackets [])],
             qb_orderBys = [], qb_take = JNum 100, qb_skip = Some (JStr ''7'')\<rparr>,
        [],
        world0\<lparr>builders := [''entity''],
               console := [ConsoleWarn [JStr ''Limit was overriden due to more than max limit (100)'']]\<rparr>)
   \<and> getQueryBuilder (example_controller True True False [''authorId'']) user9
       [(''page'', JStr ''3'')] False world0
     = (Inr \<lparr>qb_alias = ''entity'', qb_joins = [], qb_wheres = [(Where, Brackets [])],
             qb_orderBys = [], qb_take = JNum 25, qb_skip = Some (JNum 0)\<rparr>,
        [], world0\<lparr>builders := [''entity'']\<rparr>)
   \<and> getQueryBuilder (example_controller True True False [''authorId'']) user9
       [(''limit'', JStr ''10''), (''page'', JStr ''9007199254740993'')] False world0
     = (Inr \<lparr>qb_alias = ''entity'', qb_joins = [], qb_wheres = [(Where, Brackets [])],
             qb_orderBys = [], qb_take = JNum 10, qb_skip = Some (JNumber (Huge True))\<rparr>,
        [], world0\<lparr>builders := [''entity'']\<rparr>)
   \<and> parseInt (JStr ''10'') = Some (Fin 10) \<and> parseInt (JStr ''150'') = Some (Fin 150)
   \<and> to_number (JStr ''2'') = Some (Fin 2) \<and> safe 10 \<and> safe (10 * 2)"
proof -
  let ?c = "example_controller True True False [''authorId'']"
  have a: "getQueryBuilder ?c user9 [(''limit'', JStr ''10''), (''page'', JStr ''2'')] False world0
     = (Inr \<lparr>qb_alias = ''entity'', qb_joins = [], qb_wheres = [(Where, Brackets [])],
             qb_orderBys = [], qb_take = JNum 10, qb_skip = Some (JNum 20)\<rparr>,
        [], world0\<lparr>builders := [''entity'']\<rparr>)"
    by code_simp
  have b: "getQueryBuilder ?c user9 [(''limit'', JStr ''150''), (''offset'', JStr ''7'')] False world0
     = (Inr \<lparr>qb_alias = ''entity'', qb_joins = [], qb_wheres = [(Where, Brackets [])],
             qb_orderBys = [], qb_take = JNum 100, qb_skip = Some (JStr ''7'')\<rparr>,
        [],
        world0\<lparr>builders := [''entity''],
               console := [ConsoleWarn [JStr ''Limit was overriden due to more than max limit (100)'']]\<rparr>)"
    by code_simp
  have c: "getQueryBuilder ?c user9 [(''page'', JStr ''3'')] False world0
     = (Inr \<lparr>qb_alias = ''entity'', qb_joins = [], qb_wheres = [(Where, Brackets [])],
             qb_orderBys = [], qb_take = JNum 25, qb_skip = Some (JNum 0)\<rparr>,
        [], world0\<lparr>builders := [''entity'']\<rparr>)"
    by code_simp
  have d: "getQueryBuilder ?c user9
       [(''limit'', JStr ''10''), (''page'', JStr ''9007199254740993'')] False world0
     = (Inr \<lparr>qb_alias = ''entity'', qb_joins = [], qb_wheres = [(Where, Brackets [])],
             qb_orderBys = [], qb_take = JNum 10, qb_skip = Some (JNumber (Huge True))\<rparr>,
        [], world0\<lparr>builders := [''entity'']\<rparr>)"
    by code_simp
  have p: "parseInt (JStr ''10'') = Some (Fin 10)" "parseInt (JStr ''150'') = Some (Fin 150)"
    "to_number (JStr ''2'') = Some (Fin 2)" "safe 10" "safe (10 * 2)"
    by code_simp+
  show ?thesis
    using pagination [OF a refl, of 10 10 2] pagination [OF b refl, of 150 100 0]
      pagination [OF c refl, of 0 25 0] pagination [OF d refl, of 10 10 0] a b c d p
    by simp
qed

text \<open>
  C6. Whenever \<open>getQueryBuilder\<close> returns a builder, the caller's filters are exactly
  one condition for each key of the query other than \<open>limit\<close>, \<open>page\<close>, \<open>orderBy\<close>,
  \<open>order\<close> and \<open>offset\<close>, in the order of the keys: a membership condition
  (\<open>IN\<close>) when the key's value is an array and an equality otherwise. Each is added with
  \<open>andWhere\<close>, after the access predicate if there is one, and the query object that is
  left holds the remaining keys with the caller's values.
\<close>

theorem caller_filters:
  assumes "getQueryBuilder this user query sk w = (Inr b, q', w')"
  shows "map fst q' = filter (\<lambda>k. k \<notin> set reserved_keys) (map fst query)
       \<and> (\<forall>k. k \<notin> set reserved_keys \<longrightarrow> js_get q' k = js_get query k)
       \<and> filters b =
           map (\<lambda>k. if is_array (js_get query k)
                    then Expr (''entity.'' @ k @ '' IN(:...'' @ k @ '')'') (JObj q')
                    else Expr (''entity.'' @ k @ '' = :'' @ k) (JObj q'))
             (filter (\<lambda>k. k \<notin> set reserved_keys) (map fst query))
       \<and> qb_wheres b =
           (case access_predicate b of None \<Rightarrow> [] | Some c \<Rightarrow> [(Where, c)])
           @ map (\<lambda>c. (AndWhere, c)) (filters b)"
proof -
  let ?w1 = "w\<lparr>builders := builders w @ [''entity'']\<rparr>"
  from getQueryBuilder_Inr [OF assms] obtain q1 where
    al: "apply_limit query ?w1 = Some (q1, w')" and q': "q' = delete_reserved q1"
    by blast
  have keys: "map fst q' = filter (\<lambda>k. k \<notin> set reserved_keys) (map fst query)"
    by (simp add: q' keys_delete_reserved apply_limit_keys [OF al])
  have get: "js_get q' k = js_get query k" if "k \<notin> set reserved_keys" for k
    using that by (simp add: q' js_get_delete_reserved apply_limit_get [OF al])
  note wh = wheres_access_then_filters [OF assms]
  have fl: "filters b = map (filter_cond q') (map fst q')"
    unfolding filters_def wh by (simp add: filter_map comp_def)
  have fl2: "map (filter_cond q') (map fst q') =
      map (\<lambda>k. if is_array (js_get query k)
                    then Expr (''entity.'' @ k @ '' IN(:...'' @ k @ '')'') (JObj q')
                    else Expr (''entity.'' @ k @ '' = :'' @ k) (JObj q'))
             (filter (\<lambda>k. k \<notin> set reserved_keys) (map fst query))"
    unfolding keys by (rule map_cong) (simp_all add: filter_cond_def get)
  have ap: "qb_wheres b =
           (case access_predicate b of None \<Rightarrow> [] | Some c \<Rightarrow> [(Where, c)])
           @ map (\<lambda>c. (AndWhere, c)) (filters b)"
    unfolding fl unfolding access_predicate_def wh
    by (cases "map fst q'") (simp_all add: comp_def)
  show ?thesis
    using keys get fl fl2 ap by simp
qed

theorem caller_filters_witness:
  "getQueryBuilder (example_controller True True False [''authorId'']) user9
       [(''limit'', JStr ''150''), (''tag'', JArr [JStr ''a'', JStr ''b'']), (''page'', JStr ''2''),
        (''title'', JStr ''x''), (''orderBy'', JStr ''title''), (''order'', JStr ''desc''),
        (''offset'', JStr ''5'')] False world0
     = (Inr \<lparr>qb_alias = ''entity'', qb_joins = [],
             qb_wheres =
               [(Where, Brackets []),
                (AndWhere, Expr ''entity.tag IN(:...tag)''
                   (JObj [(''tag'', JArr [JStr ''a'', JStr ''b'']), (''title'', JStr ''x'')])),
                (AndWhere, Expr ''entity.title = :title''
                   (JObj [(''tag'', JArr [JStr ''a'', JStr ''b'']), (''title'', JStr ''x'')]))],
             qb_orderBys = [(''entity.title'', ''DESC'')], qb_take = JNum 100,
             qb_skip = Some (JStr ''5'')\<rparr>,
        [(''tag'', JArr [JStr ''a'', JStr ''b'']), (''title'', JStr ''x'')],
        world0\<lparr>builders := [''entity''],
               console := [ConsoleWarn [JStr ''Limit was overriden due to more than max limit (100)'']]\<rparr>)
   \<and> ''tag'' \<notin> set reserved_keys \<and> ''title'' \<notin> set reserved_keys
   \<and> js_get [(''tag'', JArr [JStr ''a'', JStr ''b'']), (''title'', JStr ''x'')] ''title'' = JStr ''x''"
proof -
  let ?q = "[(''limit'', JStr ''150''), (''tag'', JArr [JStr ''a'', JStr ''b'']), (''page'', JStr ''2''),
        (''title'', JStr ''x''), (''orderBy'', JStr ''title''), (''order'', JStr ''desc''),
        (''offset'', JStr ''5'')]"
  have g: "getQueryBuilder (example_controller True True False [''authorId'']) user9 ?q False world0
     = (Inr \<lparr>qb_alias = ''entity'', qb_joins = [],
             qb_wheres =
               [(Where, Brackets []),
                (AndWhere, Expr ''entity.tag IN(:...tag)''
                   (JObj [(''tag'', JArr [JStr ''a'', JStr ''b'']), (''title'', JStr ''x'')])),
                (AndWhere, Expr ''entity.title = :title''
                   (JObj [(''tag'', JArr [JStr ''a'', JStr ''b'']), (''title'', JStr ''x'')]))],
             qb_orderBys = [(''entity.title'', ''DESC'')], qb_take = JNum 100,
             qb_skip = Some (JStr ''5'')\<rparr>,
        [(''tag'', JArr [JStr ''a'', JStr ''b'']), (''title'', JStr ''x'')],
        world0\<lparr>builders := [''entity''],
               console := [ConsoleWarn [JStr ''Limit was overriden due to more than max limit (100)'']]\<rparr>)"
    by code_simp
  have r: "''tag'' \<notin> set reserved_keys" "''title'' \<notin> set reserved_keys"
    by (simp_all add: reserved_keys_def)
  show ?thesis
    using caller_filters [OF g] g r by (simp add: js_get_def)
qed




section \<open>The update and create handlers\<close>

text \<open>
  C7. The entity \<open>updateContentEntity\<close> hands to \<open>save\<close> is the current entity with the
  submitted one laid over it: its \<open>id\<close> and \<open>authorId\<close> are the current entity's, its
  \<open>moderatorId\<close> is the acting user's id, every other property the submitted entity
  has takes the submitted value, and every property it does not have keeps the
  current value.
\<close>

theorem update_persists_merged_entity:
  "save_calls (snd (updateContentEntity this user current submitted w))
     = save_calls w @ [merged_entity user current submitted]
   \<and> js_get (merged_entity user current submitted) ''id'' = js_get current ''id''
   \<and> js_get (merged_entity user current submitted) ''authorId'' = js_get current ''authorId''
   \<and> js_get (merged_entity user current submitted) ''moderatorId'' = user_id user
   \<and> (\<forall>k. k \<notin> {''id'', ''authorId'', ''moderatorId''} \<longrightarrow>
          js_get (merged_entity user current submitted) k
            = (if k \<in> fst ` set submitted then js_get submitted k else js_get current k))"
proof -
  have saved: "save_calls (snd (updateContentEntity this user current submitted w))
      = save_calls w @ [merged_entity user current submitted]"
    by (simp add: updateContentEntity_def Let_def split: sum.splits)
  have get: "js_get (merged_entity user current submitted) k =
      (if k = ''moderatorId'' then user_id user
       else if k = ''authorId'' then js_get current ''authorId''
       else if k = ''id'' then js_get current ''id''
       else if k \<in> fst ` set submitted then js_get submitted k else js_get current k)" for k
    by (simp add: merged_entity_def Let_def js_get_object_assign keys_js_set js_get_js_set)
  show ?thesis
    using saved by (simp add: get)
qed

theorem update_persists_merged_entity_witness:
  "save_calls (snd (updateContentEntity (example_controller False False False []) user9
       [(''id'', JNum 5), (''authorId'', JNum 3)] [(''title'', JStr ''x'')] world0))
     = [[(''id'', JNum 5), (''authorId'', JNum 3), (''title'', JStr ''x''), (''moderatorId'', JNum 9)]]
   \<and> js_get (merged_entity user9 [(''id'', JNum 5), (''authorId'', JNum 3)] [(''title'', JStr ''x'')]) ''title''
       = JStr ''x''"
  using update_persists_merged_entity
    [of "example_controller False False False []" user9
        "[(''id'', JNum 5), (''authorId'', JNum 3)]" "[(''title'', JStr ''x'')]" world0]
  by (simp add: merged_entity_def object_assign_def js_get_def user9_def world0_def)

text \<open>
  C8. When \<open>save\<close> throws during a create, an error whose \<open>code\<close> is \<open>ER_DUP_ENTRY\<close>
  (the store's duplicate-key signal) ends the handler with \<open>ConflictException\<close> and the
  duplicate-entity message; any other error ends it with
  \<open>UnprocessableEntityException\<close> and a fixed message that says nothing of the error,
  which is written to the console.
\<close>

theorem create_store_failure:
  assumes "save this (stamp_author user entity) = Inl e"
  shows "createContentEntity this entity user w =
     (if js_get e ''code'' = JStr ''ER_DUP_ENTRY''
      then (Inl (ConflictException (JStr ''Duplicate entity. Please, check unique fields'')),
            w\<lparr>save_calls := save_calls w @ [stamp_author user entity]\<rparr>)
      else (Inl (UnprocessableEntityException (JStr ''Something went wrong. Please try later or contact us'')),
            w\<lparr>save_calls := save_calls w @ [stamp_author user entity],
              console := console w @ [ConsoleLog [now this, JObj e]]\<rparr>))"
  using assms by (simp add: createContentEntity_def Let_def)

theorem create_store_failure_witness:
  "createContentEntity
      ((example_controller False False False [])\<lparr>save := \<lambda>entity. Inl [(''code'', JStr ''ER_DUP_ENTRY'')]\<rparr>)
      [(''title'', JStr ''x'')] user9 world0
     = (Inl (ConflictException (JStr ''Duplicate entity. Please, check unique fields'')),
        world0\<lparr>save_calls := [[(''title'', JStr ''x''), (''authorId'', JNum 9), (''moderatorId'', JNum 9)]]\<rparr>)
   \<and> createContentEntity
      ((example_controller False False False [])\<lparr>save := \<lambda>entity. Inl [(''code'', JStr ''ER_LOCK_DEADLOCK'')]\<rparr>)
      [(''title'', JStr ''x'')] user9 world0
     = (Inl (UnprocessableEntityException (JStr ''Something went wrong. Please try later or contact us'')),
        world0\<lparr>save_calls := [[(''title'', JStr ''x''), (''authorId'', JNum 9), (''moderatorId'', JNum 9)]],
               console := [ConsoleLog [JStr ''2019-01-01T00:00:00.000Z'', JObj [(''code'', JStr ''ER_LOCK_DEADLOCK'')]]]\<rparr>)"
  using create_store_failure
    [of "(example_controller False False False [])\<lparr>save := \<lambda>entity. Inl [(''code'', JStr ''ER_DUP_ENTRY'')]\<rparr>"
        user9 "[(''title'', JStr ''x'')]" "[(''code'', JStr ''ER_DUP_ENTRY'')]" world0]
    create_store_failure
    [of "(example_controller False False False [])\<lparr>save := \<lambda>entity. Inl [(''code'', JStr ''ER_LOCK_DEADLOCK'')]\<rparr>"
        user9 "[(''title'', JStr ''x'')]" "[(''code'', JStr ''ER_LOCK_DEADLOCK'')]" world0]
  by (simp add: example_controller_def stamp_author_def user9_def world0_def js_get_def)

text \<open>
  C9. When \<open>save\<close> throws during an update, the error is written to the console and
  the handler returns normally, with no value (\<open>undefined\<close>): no exception reaches the
  caller.
\<close>

theorem update_store_failure_is_silent:
  assumes "save this (merged_entity user current submitted) = Inl e"
  shows "updateContentEntity this user current submitted w =
     (Inr JUndefined,
      w\<lparr>save_calls := save_calls w @ [merged_entity user current submitted],
        console := console w @ [ConsoleError [JObj e]]\<rparr>)"
  using assms by (simp add: updateContentEntity_def Let_def)

theorem update_store_failure_is_silent_witness:
  "updateContentEntity
      ((example_controller False False False [])\<lparr>save := \<lambda>entity. Inl [(''code'', JStr ''ER_LOCK_DEADLOCK'')]\<rparr>)
      user9 [(''id'', JNum 5), (''authorId'', JNum 3)] [(''title'', JStr ''x'')] world0
     = (Inr JUndefined,
        world0\<lparr>save_calls := [[(''id'', JNum 5), (''authorId'', JNum 3), (''title'', JStr ''x''), (''moderatorId'', JNum 9)]],
               console := [ConsoleError [JObj [(''code'', JStr ''ER_LOCK_DEADLOCK'')]]]\<rparr>)"
  using update_store_failure_is_silent
    [of "(example_controller False False False [])\<lparr>save := \<lambda>entity. Inl [(''code'', JStr ''ER_LOCK_DEADLOCK'')]\<rparr>"
        user9 "[(''id'', JNum 5), (''authorId'', JNum 3)]" "[(''title'', JStr ''x'')]"
        "[(''code'', JStr ''ER_LOCK_DEADLOCK'')]" world0]
  by (simp add: example_controller_def merged_entity_def object_assign_def js_get_def user9_def world0_def)

end
